theory Spec2Isabelle
  imports Main "HOL-Library.Signed_Division"
begin

section \<open>Fluentd logging middleware for Fiber (fluentlogger.go)\<close>

text \<open>
  The package wraps a Fiber handler and posts one flat record per request to a
  Fluentd collector. Everything it calls lives outside the repository: the Fiber
  request context, the Fluentd client, Go's clock, \<open>tracerr\<close> and
  \<open>runtime/debug\<close>. The embedding keeps the three functions of the source
  (\<open>New\<close>, \<open>Logger\<close>, \<open>PanicLogger\<close>) statement by statement and makes the
  outside world explicit: a \<open>world\<close> record holds the clock and the logs of what
  was dialled, posted and printed, and an \<open>env\<close> record holds what the external
  libraries answer.
\<close>

subsection \<open>Go values\<close>

text \<open>
  A Go \<open>error\<close> value; \<open>nil\<close> is \<open>None\<close> of \<open>go_error option\<close>. The two
  constructors keep apart an error a handler returned on purpose and one that a
  recover middleware made out of a runtime panic: Go's type does not tell them
  apart, and neither does the code, which only tests \<open>err != nil\<close>.
\<close>

datatype go_error = ErrorValue string | RecoveredPanic string

text \<open>The values of a \<open>map[string]interface{}\<close> that the source stores:
  strings, \<open>int\<close> (status, body length) and \<open>int64\<close> (milliseconds).\<close>

datatype log_value = StringV string | IntV int | Int64V int

type_synonym log_record = "string \<rightharpoonup> log_value"

subsection \<open>The Fiber request context\<close>

text \<open>Modelled from the spec: Fiber's \<open>Ctx\<close> is not part of the repository. It
  "supplies the per-request context (method, path, status, response body, client
  address, headers)"; the fields are what the source reads through \<open>c.Method()\<close>,
  \<open>c.Path()\<close>, \<open>c.IP()\<close>, \<open>c.Get\<close>, \<open>c.Response().StatusCode()\<close> and
  \<open>c.Response().Body()\<close>. All of them but the last only read. A response holds
  its body either in a buffer or as a stream still to be read (\<open>c.SendStream\<close>);
  a stream yields its bytes, or fails with a read error.\<close>

record body_stream =
  stream_data :: string  \<comment> \<open>the bytes that reading the stream to its end yields\<close>
  stream_err :: "string option"  \<comment> \<open>the message of the read error, when reading fails\<close>

record fiber_Response =
  StatusCode :: int
  body :: string  \<comment> \<open>the body buffer\<close>
  bodyStream :: "body_stream option"  \<comment> \<open>the body stream; \<open>nil\<close> is \<open>None\<close>\<close>

record fiber_Ctx =
  Method :: string
  Path :: string
  IP :: string
  Headers :: "string \<rightharpoonup> string"
  Response :: fiber_Response

text \<open>Modelled from the spec: the "response body length" is the length of what
  \<open>c.Response().Body()\<close> returns. That call is fasthttp's \<open>Response.Body\<close>, not
  part of the repository, and it is not a plain read: when the response holds a body
  stream, it reads the stream to its end into the body buffer and closes the stream,
  and when the read fails it puts the text of the read error in the buffer instead;
  then it returns the buffer. The model returns the bytes and the response as the call
  leaves it.\<close>

definition Body :: "fiber_Response \<Rightarrow> string \<times> fiber_Response" where
  "Body resp =
     (case bodyStream resp of
        None \<Rightarrow> (body resp, resp)
      | Some stream \<Rightarrow>
          (let bodyBuf = (case stream_err stream of
                            None \<Rightarrow> stream_data stream
                          | Some e \<Rightarrow> e)
           in (bodyBuf, resp\<lparr>body := bodyBuf, bodyStream := None\<rparr>)))"

text \<open>Modelled from the spec: \<open>c.Get(key)\<close> is the request header of that
  name, the empty string when it is absent.\<close>

definition Get :: "fiber_Ctx \<Rightarrow> string \<Rightarrow> string" where
  "Get c key = (case Headers c key of None \<Rightarrow> [] | Some v \<Rightarrow> v)"

text \<open>Modelled from the spec: \<open>fiber.StatusInternalServerError\<close>, the
  "server-error sentinel value"; the comment at line 109 gives it as status code 500.\<close>

definition StatusInternalServerError :: int where
  "StatusInternalServerError = 500"

subsection \<open>Configuration and the logger handle (lines 32-45)\<close>

record LoggerConfig =
  Enabled :: bool
  Host :: string
  Port :: int
  Tag :: string

text \<open>Modelled from the spec: \<open>fluent.Config\<close> and \<open>*fluent.Fluent\<close> belong to
  the Fluentd client library. A client is an open connection to the collector "given
  a host/port pair".\<close>

record fluent_Config =
  FluentHost :: string
  FluentPort :: int

datatype fluent_Fluent = Fluent fluent_Config

record Logger =
  client :: fluent_Fluent
  tag :: string

subsection \<open>The world outside the handler\<close>

text \<open>One call of \<open>client.Post\<close>: the tag, the record and what the call returned.\<close>

record post_call =
  post_tag :: string
  post_data :: log_record
  post_err :: "go_error option"

record world =
  now :: int  \<comment> \<open>the clock that \<open>time.Now\<close> captures, in nanoseconds\<close>
  dialed :: "fluent_Config list"  \<comment> \<open>the calls of \<open>fluent.New\<close>, oldest first\<close>
  posts :: "post_call list"  \<comment> \<open>the calls of \<open>client.Post\<close>, oldest first\<close>
  printed :: "go_error list"  \<comment> \<open>the errors given to \<open>tracerr.PrintSource\<close>\<close>

text \<open>
  What the external libraries answer. Each answer may depend on the world at the
  time of the call; a call that blocks says for how many nanoseconds.
\<close>

record env =
  dial :: "fluent_Config \<Rightarrow> world \<Rightarrow> go_error + fluent_Fluent"
  send :: "fluent_Fluent \<Rightarrow> string \<Rightarrow> log_record \<Rightarrow> world \<Rightarrow> go_error option \<times> nat"
  sprint :: "go_error \<Rightarrow> string \<times> nat"
  stack :: "world \<Rightarrow> string"

text \<open>\<open>fiber.Handler\<close>, \<open>func(c *fiber.Ctx) error\<close>. The handler works on
  the context through a pointer and on the world around it, so the model returns its
  error together with the context and the world as it leaves them. \<open>c.Next()\<close>
  runs the rest of the chain, which is such a handler too; the wrappers below take it
  as the argument \<open>Next\<close>.\<close>

type_synonym fiber_Handler =
  "fiber_Ctx \<Rightarrow> world \<Rightarrow> go_error option \<times> fiber_Ctx \<times> world"

subsection \<open>The external calls\<close>

text \<open>Time passes: the clock moves on by \<open>ns\<close> nanoseconds.\<close>

definition elapse :: "nat \<Rightarrow> world \<Rightarrow> world" where
  "elapse ns w = w\<lparr>now := now w + int ns\<rparr>"

text \<open>Modelled from the spec: Go's \<open>time\<close> package is not part of the
  repository. \<open>time.Now\<close> captures the clock and \<open>time.Since\<close> is the elapsed
  time from a capture to the present one, a \<open>Duration\<close> in nanoseconds. A
  \<open>Duration\<close> is an \<open>int64\<close> and Go saturates it at the bounds; \<open>int\<close> is
  exact for every span shorter than \<open>2^63\<close> ns, about 292 years.\<close>

definition time_Now :: "world \<Rightarrow> int" where
  "time_Now w = now w"

definition time_Since :: "int \<Rightarrow> world \<Rightarrow> int" where
  "time_Since t w = now w - t"

text \<open>Modelled from the spec: "elapsed milliseconds". Go's
  \<open>Duration.Milliseconds\<close> is \<open>int64(d) / 1e6\<close>, and Go's integer division
  truncates towards zero.\<close>

definition Milliseconds :: "int \<Rightarrow> int" where
  "Milliseconds d = d sdiv 1000000"

text \<open>Modelled from the spec: \<open>fluent.New\<close> "opens a connection" or fails
  with a transport error. The attempt is logged in the world.\<close>

definition fluent_New :: "env \<Rightarrow> fluent_Config \<Rightarrow> world \<Rightarrow> (go_error + fluent_Fluent) \<times> world" where
  "fluent_New env cfg w = (dial env cfg w, w\<lparr>dialed := dialed w @ [cfg]\<rparr>)"

text \<open>Modelled from the spec: \<open>client.Post\<close> is the "send tagged record"
  operation; "the outbound transmission call blocks the handler's completion". The
  call is logged in the world with its outcome, and the clock moves on by the time
  the transport takes.\<close>

definition fluent_Post ::
  "env \<Rightarrow> fluent_Fluent \<Rightarrow> string \<Rightarrow> log_record \<Rightarrow> world \<Rightarrow> go_error option \<times> world" where
  "fluent_Post env f t d w =
     (let (r, ns) = send env f t d w
      in (r, (elapse ns w)\<lparr>posts := posts w @ [\<lparr>post_tag = t, post_data = d, post_err = r\<rparr>]\<rparr>))"

text \<open>Modelled from the spec: \<open>tracerr.SprintSource\<close> gives the description
  of an error; rendering it takes time.\<close>

definition tracerr_SprintSource :: "env \<Rightarrow> go_error \<Rightarrow> world \<Rightarrow> string \<times> world" where
  "tracerr_SprintSource env e w = (fst (sprint env e), elapse (snd (sprint env e)) w)"

text \<open>Modelled from the spec: \<open>tracerr.PrintSource\<close> prints the error "to
  local diagnostic output".\<close>

definition tracerr_PrintSource :: "go_error \<Rightarrow> world \<Rightarrow> world" where
  "tracerr_PrintSource e w = w\<lparr>printed := printed w @ [e]\<rparr>"

text \<open>Modelled from the spec: \<open>debug.Stack\<close> is "a freshly captured
  stack-trace snapshot", as text.\<close>

definition debug_Stack :: "env \<Rightarrow> world \<Rightarrow> string" where
  "debug_Stack env w = stack env w"

subsection \<open>\<open>New\<close> (lines 50-68)\<close>

definition New :: "env \<Rightarrow> LoggerConfig \<Rightarrow> world \<Rightarrow> (go_error + Logger) \<times> world" where
  "New env config w =
     (if \<not> Enabled config then (Inl (ErrorValue ''middleware disabled''), w)
      else
        (case fluent_New env \<lparr>FluentHost = Host config, FluentPort = Port config\<rparr> w of
           (Inl err, w') \<Rightarrow> (Inl err, w')
         | (Inr fluentLogger, w') \<Rightarrow> (Inr \<lparr>client = fluentLogger, tag = Tag config\<rparr>, w')))"

subsection \<open>\<open>Logger.Logger\<close> (lines 73-100)\<close>

text \<open>The map literal of lines 80-88 is evaluated entry by entry: the status is read
  at line 83, before \<open>Body()\<close> is called at line 87. The context handed back is the
  one that the handler's own calls leave, \<open>Body()\<close> included.\<close>

definition Logger :: "env \<Rightarrow> Logger \<Rightarrow> fiber_Handler \<Rightarrow> fiber_Handler" where
  "Logger env l Next c w =
     (let start = time_Now w;
          (err, c', w1) = Next c w;
          latency = time_Since start w1;
          status = StatusCode (Response c');
          (responseBody, response) = Body (Response c');
          c'' = c'\<lparr>Response := response\<rparr>;
          logData = [''method'' \<mapsto> StringV (Method c'),
                     ''path'' \<mapsto> StringV (Path c'),
                     ''status'' \<mapsto> IntV status,
                     ''latency_ms'' \<mapsto> Int64V (Milliseconds latency),
                     ''client_ip'' \<mapsto> StringV (IP c'),
                     ''user_agent'' \<mapsto> StringV (Get c' ''User-Agent''),
                     ''response_size'' \<mapsto> IntV (int (length responseBody))];
          (logData, w2) =
            (case err of
               None \<Rightarrow> (logData, w1)
             | Some e \<Rightarrow>
                 (let (s, w') = tracerr_SprintSource env e w1
                  in (logData(''error'' \<mapsto> StringV s), w')));
          (perr, w3) = fluent_Post env (client l) (tag l) logData w2;
          w4 = (case perr of None \<Rightarrow> w3 | Some e \<Rightarrow> tracerr_PrintSource e w3)
      in (err, c'', w4))"

subsection \<open>\<open>Logger.PanicLogger\<close> (lines 105-137)\<close>

definition PanicLogger :: "env \<Rightarrow> Logger \<Rightarrow> fiber_Handler \<Rightarrow> fiber_Handler" where
  "PanicLogger env l Next c w =
     (let (err, c', w1) = Next c w
      in if StatusCode (Response c') = StatusInternalServerError then
           (let logData = [''method'' \<mapsto> StringV (Method c'),
                           ''path'' \<mapsto> StringV (Path c'),
                           ''client_ip'' \<mapsto> StringV (IP c'),
                           ''user_agent'' \<mapsto> StringV (Get c' ''User-Agent'')];
                (logData, w2) =
                  (case err of
                     None \<Rightarrow> (logData, w1)
                   | Some e \<Rightarrow>
                       (let (s, w') = tracerr_SprintSource env e w1
                        in (logData(''error'' \<mapsto> StringV s), w')));
                logData =
                  (case err of
                     None \<Rightarrow> logData
                   | Some e \<Rightarrow> logData(''stacktrace'' \<mapsto> StringV (debug_Stack env w2)));
                (perr, w3) = fluent_Post env (client l) (tag l @ ''.panic'') logData w2;
                w4 = (case perr of None \<Rightarrow> w3 | Some e \<Rightarrow> tracerr_PrintSource e w3)
            in (err, c', w4))
         else (err, c', w1))"

subsection \<open>Example requests\<close>

text \<open>
  Concrete inputs on which the theorems below are instantiated: a world in which
  nothing has happened yet, a collector that answers and one that refuses, a logger
  with the tag \<open>app\<close>, a request from client 10.0.0.5, and a downstream handler
  that writes a status and a body, returns a given error and takes a given time.
\<close>

definition world0 :: world where
  "world0 = \<lparr>now = 0, dialed = [], posts = [], printed = []\<rparr>"

definition collector_up :: env where
  "collector_up =
     \<lparr>dial = (\<lambda>cfg w. Inr (Fluent cfg)),
      send = (\<lambda>f t d w. (None, 2000000)),
      sprint = (\<lambda>e. (case e of ErrorValue m \<Rightarrow> m | RecoveredPanic m \<Rightarrow> m, 1000000)),
      stack = (\<lambda>w. ''goroutine 1 [running]:'')\<rparr>"

definition collector_down :: env where
  "collector_down =
     collector_up
       \<lparr>dial := (\<lambda>cfg w. Inl (ErrorValue ''connection refused'')),
        send := (\<lambda>f t d w. (Some (ErrorValue ''connection refused''), 5000000))\<rparr>"

definition app_logger :: Logger where
  "app_logger =
     \<lparr>client = Fluent \<lparr>FluentHost = ''127.0.0.1'', FluentPort = 24224\<rparr>, tag = ''app''\<rparr>"

definition request :: "string \<Rightarrow> string \<Rightarrow> fiber_Ctx" where
  "request m p =
     \<lparr>Method = m, Path = p, IP = ''10.0.0.5'',
      Headers = [''User-Agent'' \<mapsto> ''curl/8.0''],
      Response = \<lparr>StatusCode = 200, body = [], bodyStream = None\<rparr>\<rparr>"

definition respond :: "int \<Rightarrow> string \<Rightarrow> go_error option \<Rightarrow> nat \<Rightarrow> fiber_Handler" where
  "respond status bytes err ns c w =
     (err, c\<lparr>Response := \<lparr>StatusCode = status, body = bytes, bodyStream = None\<rparr>\<rparr>,
      elapse ns w)"

text \<open>\<open>GET /health\<close> answers 200 after 12 ms; \<open>POST /orders\<close> fails with
  status 500 and the error "db timeout" after 3 ms; a recovered panic gives status 500
  too; a handler may also set status 500, or 503, and return no error.\<close>

definition health :: fiber_Handler where
  "health = respond 200 ''ok'' None 12000000"

definition orders :: fiber_Handler where
  "orders = respond 500 [] (Some (ErrorValue ''db timeout'')) 3000000"

definition crashed :: fiber_Handler where
  "crashed = respond 500 [] (Some (RecoveredPanic ''index out of range'')) 1000000"

definition silent500 :: fiber_Handler where
  "silent500 = respond 500 ''Internal Server Error'' None 1000000"

definition unavailable :: fiber_Handler where
  "unavailable = respond 503 ''Service Unavailable'' None 1000000"

text \<open>\<open>GET /download\<close> answers 200 with \<open>c.SendStream\<close>: the body is a stream
  of ten bytes, to be read when the response is written. In \<open>broken_download\<close> the
  stream fails when it is read.\<close>

definition download :: fiber_Handler where
  "download c w =
     (None,
      c\<lparr>Response := \<lparr>StatusCode = 200, body = [],
        bodyStream = Some \<lparr>stream_data = ''0123456789'', stream_err = None\<rparr>\<rparr>\<rparr>,
      elapse 1000000 w)"

definition broken_download :: fiber_Handler where
  "broken_download c w =
     (None,
      c\<lparr>Response := \<lparr>StatusCode = 200, body = [],
        bodyStream = Some \<lparr>stream_data = ''01234'', stream_err = Some ''unexpected EOF''\<rparr>\<rparr>\<rparr>,
      elapse 1000000 w)"

section \<open>Properties\<close>

lemmas external_defs = Body_def fluent_Post_def tracerr_SprintSource_def tracerr_PrintSource_def
  debug_Stack_def elapse_def time_Now_def time_Since_def

lemma Milliseconds_nonneg: "0 \<le> d \<Longrightarrow> Milliseconds d = d div 1000000"
  by (simp add: Milliseconds_def signed_divide_int_def sgn_if)

lemma Milliseconds_truncates:
  "Milliseconds 1999999 = 1 \<and> Milliseconds (- 1999999) = - 1"
  by (simp add: Milliseconds_def signed_divide_int_def)

text \<open>What the example handlers return.\<close>

lemma respond_run:
  "respond status bytes err ns c w =
     (err, c\<lparr>Response := \<lparr>StatusCode = status, body = bytes, bodyStream = None\<rparr>\<rparr>,
      elapse ns w)"
  by (simp add: respond_def)

lemma health_run:
  "health c w = (None,
     c\<lparr>Response := \<lparr>StatusCode = 200, body = ''ok'', bodyStream = None\<rparr>\<rparr>,
     elapse 12000000 w)"
  by (simp add: health_def respond_def)

lemma orders_run:
  "orders c w = (Some (ErrorValue ''db timeout''),
     c\<lparr>Response := \<lparr>StatusCode = 500, body = [], bodyStream = None\<rparr>\<rparr>, elapse 3000000 w)"
  by (simp add: orders_def respond_def)

lemma crashed_run:
  "crashed c w = (Some (RecoveredPanic ''index out of range''),
     c\<lparr>Response := \<lparr>StatusCode = 500, body = [], bodyStream = None\<rparr>\<rparr>, elapse 1000000 w)"
  by (simp add: crashed_def respond_def)

lemma silent500_run:
  "silent500 c w = (None,
     c\<lparr>Response := \<lparr>StatusCode = 500, body = ''Internal Server Error'',
       bodyStream = None\<rparr>\<rparr>,
     elapse 1000000 w)"
  by (simp add: silent500_def respond_def)

lemma unavailable_run:
  "unavailable c w = (None,
     c\<lparr>Response := \<lparr>StatusCode = 503, body = ''Service Unavailable'',
       bodyStream = None\<rparr>\<rparr>,
     elapse 1000000 w)"
  by (simp add: unavailable_def respond_def)

subsection \<open>What the handlers hand back\<close>

text \<open>Both handlers return exactly the error that the downstream handler returned.\<close>

lemma handlers_return_downstream_error:
  "fst (Logger env l Next c w) = fst (Next c w) \<and>
   fst (PanicLogger env l Next c w) = fst (Next c w)"
  by (simp add: Logger_def PanicLogger_def Let_def split: prod.splits option.splits)

text \<open>\<open>PanicLogger\<close> hands the context back as the downstream handler left it.\<close>

lemma PanicLogger_context:
  "fst (snd (PanicLogger env l Next c w)) = fst (snd (Next c w))"
  by (simp add: PanicLogger_def Let_def split: prod.splits option.splits)

text \<open>\<open>Logger\<close> hands the context back as its call of \<open>Body()\<close> leaves it,
  whatever the collector does.\<close>

lemma Logger_context:
  "fst (snd (Logger env l Next c w)) =
     (fst (snd (Next c w)))\<lparr>Response := snd (Body (Response (fst (snd (Next c w)))))\<rparr>"
  by (simp add: Logger_def Let_def split: prod.splits option.splits)

text \<open>A response with a buffered body is not changed by \<open>Body()\<close>; one with a
  stream loses the stream.\<close>

lemma Body_buffered:
  assumes "bodyStream resp = None"
  shows "Body resp = (body resp, resp)"
  using assms by (simp add: Body_def)

lemma Body_streamed:
  assumes "bodyStream resp = Some stream"
  shows "bodyStream (snd (Body resp)) = None \<and> snd (Body resp) \<noteq> resp"
proof -
  have "bodyStream (snd (Body resp)) = None"
    using assms by (simp add: Body_def Let_def)
  with assms show ?thesis by auto
qed

lemma Logger_context_buffered:
  assumes "Next c w = (err, c', w1)"
    and "bodyStream (Response c') = None"
  shows "fst (snd (Logger env l Next c w)) = c'"
  using assms by (simp add: Logger_context Body_buffered)

text \<open>
  Claim C1. Both handlers return the downstream error unchanged
  (\<open>handlers_return_downstream_error\<close>), and \<open>PanicLogger\<close> modifies no field of
  the response (\<open>PanicLogger_context\<close>). \<open>Logger\<close> does modify the response
  when its body is streamed: to log
  \<open>response_size\<close> it calls \<open>c.Response().Body()\<close> at line 87, and on a streamed
  response that call reads the stream to its end and closes it. After
  \<open>GET /download\<close> the downstream handler leaves an empty buffer and a stream of
  ten bytes; \<open>Logger\<close> hands back a response with the ten bytes in the buffer and no
  stream. When the stream fails on reading, \<open>Logger\<close> hands back a response whose
  body is the text of the read error.
\<close>

theorem Logger_drains_body_stream:
  "Response (fst (snd (download (request ''GET'' ''/download'') world0))) =
     \<lparr>StatusCode = 200, body = [],
      bodyStream = Some \<lparr>stream_data = ''0123456789'', stream_err = None\<rparr>\<rparr> \<and>
   Response (fst (snd (Logger collector_up app_logger download
       (request ''GET'' ''/download'') world0))) =
     \<lparr>StatusCode = 200, body = ''0123456789'', bodyStream = None\<rparr> \<and>
   Response (fst (snd (PanicLogger collector_up app_logger download
       (request ''GET'' ''/download'') world0))) =
     \<lparr>StatusCode = 200, body = [],
      bodyStream = Some \<lparr>stream_data = ''0123456789'', stream_err = None\<rparr>\<rparr> \<and>
   Response (fst (snd (Logger collector_up app_logger broken_download
       (request ''GET'' ''/download'') world0))) =
     \<lparr>StatusCode = 200, body = ''unexpected EOF'', bodyStream = None\<rparr> \<and>
   fst (snd (Logger collector_up app_logger download (request ''GET'' ''/download'') world0)) \<noteq>
     fst (snd (download (request ''GET'' ''/download'') world0))"
proof -
  let ?c = "request ''GET'' ''/download''"
  have downstream: "Response (fst (snd (download ?c world0))) =
     \<lparr>StatusCode = 200, body = [],
      bodyStream = Some \<lparr>stream_data = ''0123456789'', stream_err = None\<rparr>\<rparr>"
    by (simp add: download_def)
  have logged: "Response (fst (snd (Logger collector_up app_logger download ?c world0))) =
     \<lparr>StatusCode = 200, body = ''0123456789'', bodyStream = None\<rparr>"
    by (simp add: Logger_context Body_def Let_def download_def)
  have panic_logged:
    "Response (fst (snd (PanicLogger collector_up app_logger download ?c world0))) =
     \<lparr>StatusCode = 200, body = [],
      bodyStream = Some \<lparr>stream_data = ''0123456789'', stream_err = None\<rparr>\<rparr>"
    by (simp add: PanicLogger_context download_def)
  have broken: "Response (fst (snd (Logger collector_up app_logger broken_download ?c world0))) =
     \<lparr>StatusCode = 200, body = ''unexpected EOF'', bodyStream = None\<rparr>"
    by (simp add: Logger_context Body_def Let_def broken_download_def)
  have "Response (fst (snd (Logger collector_up app_logger download ?c world0))) \<noteq>
      Response (fst (snd (download ?c world0)))"
    unfolding downstream logged by simp
  then have "fst (snd (Logger collector_up app_logger download ?c world0)) \<noteq>
      fst (snd (download ?c world0))"
    by auto
  with downstream logged panic_logged broken show ?thesis by simp
qed

subsection \<open>How many records are posted, and under which tag\<close>

text \<open>
  Claim C2. Let the downstream handler leave the status code \<open>s\<close>. When \<open>s\<close> is
  the server-error status that the code tests for, \<open>fiber.StatusInternalServerError\<close>
  (500), the handler returned by \<open>PanicLogger\<close> makes exactly one call of \<open>Post\<close>,
  under the tag \<open>tag l\<close> followed by \<open>.panic\<close>; for every other status code
  it makes none.
\<close>

theorem PanicLogger_posts:
  assumes "Next c w = (err, c', w1)"
  shows "if StatusCode (Response c') = StatusInternalServerError
         then \<exists>data perr. posts (snd (snd (PanicLogger env l Next c w))) =
                posts w1 @ [\<lparr>post_tag = tag l @ ''.panic'', post_data = data, post_err = perr\<rparr>]
         else posts (snd (snd (PanicLogger env l Next c w))) = posts w1"
proof (cases "StatusCode (Response c') = StatusInternalServerError")
  case True
  with assms show ?thesis
    by (simp add: PanicLogger_def external_defs Let_def split: prod.splits option.splits)
next
  case False
  with assms show ?thesis
    by (simp add: PanicLogger_def)
qed

theorem PanicLogger_posts_witness:
  "map post_tag (posts (snd (snd (PanicLogger collector_up app_logger orders
       (request ''POST'' ''/orders'') world0)))) = [''app.panic''] \<and>
   posts (snd (snd (PanicLogger collector_up app_logger health
       (request ''GET'' ''/health'') world0))) = [] \<and>
   posts (snd (snd (PanicLogger collector_up app_logger unavailable
       (request ''GET'' ''/health'') world0))) = []"
proof -
  let ?P = "PanicLogger collector_up app_logger"
  have "\<exists>data perr. posts (snd (snd (?P orders (request ''POST'' ''/orders'') world0))) =
          [\<lparr>post_tag = ''app.panic'', post_data = data, post_err = perr\<rparr>]"
    using PanicLogger_posts [where env = collector_up and l = app_logger and Next = orders
        and c = "request ''POST'' ''/orders''" and w = world0, OF orders_run]
    by (simp add: StatusInternalServerError_def elapse_def world0_def app_logger_def)
  then have a: "map post_tag (posts (snd (snd (?P orders (request ''POST'' ''/orders'') world0)))) =
      [''app.panic'']"
    by auto
  have b: "posts (snd (snd (?P health (request ''GET'' ''/health'') world0))) = []"
    using PanicLogger_posts [where env = collector_up and l = app_logger and Next = health
        and c = "request ''GET'' ''/health''" and w = world0, OF health_run]
    by (simp add: StatusInternalServerError_def elapse_def world0_def)
  have c: "posts (snd (snd (?P unavailable (request ''GET'' ''/health'') world0))) = []"
    using PanicLogger_posts [where env = collector_up and l = app_logger and Next = unavailable
        and c = "request ''GET'' ''/health''" and w = world0, OF unavailable_run]
    by (simp add: StatusInternalServerError_def elapse_def world0_def)
  from a b c show ?thesis by simp
qed

text \<open>
  Claim C3. For every request, the handler returned by \<open>Logger\<close> makes exactly one
  call of \<open>Post\<close>, under the configured tag \<open>tag l\<close>, whether the downstream
  handler returned \<open>nil\<close> or an error.
\<close>

theorem Logger_posts_once:
  assumes "Next c w = (err, c', w1)"
  shows "\<exists>data perr. posts (snd (snd (Logger env l Next c w))) =
           posts w1 @ [\<lparr>post_tag = tag l, post_data = data, post_err = perr\<rparr>]"
  using assms
  by (simp add: Logger_def external_defs Let_def split: prod.splits option.splits)

theorem Logger_posts_once_witness:
  "map post_tag (posts (snd (snd (Logger collector_up app_logger health
       (request ''GET'' ''/health'') world0)))) = [''app''] \<and>
   map post_tag (posts (snd (snd (Logger collector_up app_logger orders
       (request ''POST'' ''/orders'') world0)))) = [''app'']"
proof -
  let ?L = "Logger collector_up app_logger"
  have "\<exists>data perr. posts (snd (snd (?L health (request ''GET'' ''/health'') world0))) =
          [\<lparr>post_tag = ''app'', post_data = data, post_err = perr\<rparr>]"
    using Logger_posts_once [where env = collector_up and l = app_logger and Next = health
        and c = "request ''GET'' ''/health''" and w = world0, OF health_run]
    by (simp add: elapse_def world0_def app_logger_def)
  moreover
  have "\<exists>data perr. posts (snd (snd (?L orders (request ''POST'' ''/orders'') world0))) =
          [\<lparr>post_tag = ''app'', post_data = data, post_err = perr\<rparr>]"
    using Logger_posts_once [where env = collector_up and l = app_logger and Next = orders
        and c = "request ''POST'' ''/orders''" and w = world0, OF orders_run]
    by (simp add: elapse_def world0_def app_logger_def)
  ultimately show ?thesis by auto
qed

subsection \<open>What the request record holds\<close>

text \<open>
  Claim C4. The record that \<open>Logger\<close> posts has exactly the keys \<open>method\<close>,
  \<open>path\<close>, \<open>status\<close>, \<open>latency_ms\<close>, \<open>client_ip\<close>, \<open>user_agent\<close> and
  \<open>response_size\<close>, read from the context as the downstream handler left it
  (\<open>response_size\<close> is the length of what \<open>Body()\<close> returns for it), and
  the key \<open>error\<close> exactly when the downstream handler returned an error; the value
  of \<open>error\<close> is then the \<open>tracerr.SprintSource\<close> description of that error.
\<close>

theorem Logger_record:
  assumes "Next c w = (err, c', w1)"
  shows "\<exists>data perr.
     posts (snd (snd (Logger env l Next c w))) =
       posts w1 @ [\<lparr>post_tag = tag l, post_data = data, post_err = perr\<rparr>] \<and>
     dom data = {''method'', ''path'', ''status'', ''latency_ms'', ''client_ip'',
                 ''user_agent'', ''response_size''} \<union>
                (case err of None \<Rightarrow> {} | Some e \<Rightarrow> {''error''}) \<and>
     data ''method'' = Some (StringV (Method c')) \<and>
     data ''path'' = Some (StringV (Path c')) \<and>
     data ''status'' = Some (IntV (StatusCode (Response c'))) \<and>
     data ''latency_ms'' = Some (Int64V (Milliseconds (now w1 - now w))) \<and>
     data ''client_ip'' = Some (StringV (IP c')) \<and>
     data ''user_agent'' = Some (StringV (Get c' ''User-Agent'')) \<and>
     data ''response_size'' = Some (IntV (int (length (fst (Body (Response c')))))) \<and>
     data ''error'' = map_option (\<lambda>e. StringV (fst (sprint env e))) err"
proof (cases err)
  case None
  with assms show ?thesis
    by (auto simp add: Logger_def external_defs Let_def split: prod.splits option.splits)
next
  case (Some e)
  with assms show ?thesis
    by (auto simp add: Logger_def external_defs Let_def split: prod.splits option.splits)
qed

theorem Logger_record_witness:
  "(\<exists>data perr.
      posts (snd (snd (Logger collector_up app_logger health
        (request ''GET'' ''/health'') world0))) =
        [\<lparr>post_tag = ''app'', post_data = data, post_err = perr\<rparr>] \<and>
      dom data = {''method'', ''path'', ''status'', ''latency_ms'', ''client_ip'',
                  ''user_agent'', ''response_size''} \<and>
      data ''method'' = Some (StringV ''GET'') \<and>
      data ''path'' = Some (StringV ''/health'') \<and>
      data ''status'' = Some (IntV 200) \<and>
      data ''latency_ms'' = Some (Int64V 12) \<and>
      data ''client_ip'' = Some (StringV ''10.0.0.5'') \<and>
      data ''user_agent'' = Some (StringV ''curl/8.0'') \<and>
      data ''response_size'' = Some (IntV 2) \<and>
      data ''error'' = None) \<and>
   (\<exists>data perr.
      posts (snd (snd (Logger collector_up app_logger orders
        (request ''POST'' ''/orders'') world0))) =
        [\<lparr>post_tag = ''app'', post_data = data, post_err = perr\<rparr>] \<and>
      dom data = {''method'', ''path'', ''status'', ''latency_ms'', ''client_ip'',
                  ''user_agent'', ''response_size'', ''error''} \<and>
      data ''method'' = Some (StringV ''POST'') \<and>
      data ''path'' = Some (StringV ''/orders'') \<and>
      data ''status'' = Some (IntV 500) \<and>
      data ''latency_ms'' = Some (Int64V 3) \<and>
      data ''client_ip'' = Some (StringV ''10.0.0.5'') \<and>
      data ''user_agent'' = Some (StringV ''curl/8.0'') \<and>
      data ''response_size'' = Some (IntV 0) \<and>
      data ''error'' = Some (StringV ''db timeout''))"
proof -
  have ms: "Milliseconds 12000000 = 12" "Milliseconds 3000000 = 3"
    by (simp_all add: Milliseconds_nonneg)
  have keys: "insert ''error'' {''method'', ''path'', ''status'', ''latency_ms'', ''client_ip'',
                  ''user_agent'', ''response_size''} =
       {''method'', ''path'', ''status'', ''latency_ms'', ''client_ip'',
                  ''user_agent'', ''response_size'', ''error''}"
    by (simp add: insert_commute)
  have ok: "\<exists>data perr.
      posts (snd (snd (Logger collector_up app_logger health
        (request ''GET'' ''/health'') world0))) =
        [\<lparr>post_tag = ''app'', post_data = data, post_err = perr\<rparr>] \<and>
      dom data = {''method'', ''path'', ''status'', ''latency_ms'', ''client_ip'',
                  ''user_agent'', ''response_size''} \<and>
      data ''method'' = Some (StringV ''GET'') \<and>
      data ''path'' = Some (StringV ''/health'') \<and>
      data ''status'' = Some (IntV 200) \<and>
      data ''latency_ms'' = Some (Int64V 12) \<and>
      data ''client_ip'' = Some (StringV ''10.0.0.5'') \<and>
      data ''user_agent'' = Some (StringV ''curl/8.0'') \<and>
      data ''response_size'' = Some (IntV 2) \<and>
      data ''error'' = None"
    using Logger_record [where env = collector_up and l = app_logger and Next = health
        and c = "request ''GET'' ''/health''" and w = world0, OF health_run]
    by (simp add: ms Body_def elapse_def world0_def request_def Get_def app_logger_def)
  have failed: "\<exists>data perr.
      posts (snd (snd (Logger collector_up app_logger orders
        (request ''POST'' ''/orders'') world0))) =
        [\<lparr>post_tag = ''app'', post_data = data, post_err = perr\<rparr>] \<and>
      dom data = {''method'', ''path'', ''status'', ''latency_ms'', ''client_ip'',
                  ''user_agent'', ''response_size'', ''error''} \<and>
      data ''method'' = Some (StringV ''POST'') \<and>
      data ''path'' = Some (StringV ''/orders'') \<and>
      data ''status'' = Some (IntV 500) \<and>
      data ''latency_ms'' = Some (Int64V 3) \<and>
      data ''client_ip'' = Some (StringV ''10.0.0.5'') \<and>
      data ''user_agent'' = Some (StringV ''curl/8.0'') \<and>
      data ''response_size'' = Some (IntV 0) \<and>
      data ''error'' = Some (StringV ''db timeout'')"
    using Logger_record [where env = collector_up and l = app_logger and Next = orders
        and c = "request ''POST'' ''/orders''" and w = world0, OF orders_run]
    by (simp add: ms keys Body_def elapse_def world0_def request_def Get_def app_logger_def
        collector_up_def)
  from ok failed show ?thesis ..
qed

subsection \<open>Construction\<close>

text \<open>A configuration that is enabled dials the collector once, at the configured
  host and port, whether or not the connection can be made.\<close>

lemma New_enabled_dials:
  assumes "Enabled config"
  shows "dialed (snd (New env config w)) =
     dialed w @ [\<lparr>FluentHost = Host config, FluentPort = Port config\<rparr>]"
  using assms by (simp add: New_def fluent_New_def split: sum.splits)

text \<open>Once enabled, \<open>New\<close> fails with the transport's error when the
  connection cannot be made, and otherwise returns a logger that holds the
  connection and the configured tag.\<close>

lemma New_transport_error:
  assumes "Enabled config"
    and "dial env \<lparr>FluentHost = Host config, FluentPort = Port config\<rparr> w = Inl e"
  shows "fst (New env config w) = Inl e"
  using assms by (simp add: New_def fluent_New_def)

lemma New_connected:
  assumes "Enabled config"
    and "dial env \<lparr>FluentHost = Host config, FluentPort = Port config\<rparr> w = Inr f"
  shows "fst (New env config w) = Inr \<lparr>client = f, tag = Tag config\<rparr>"
  using assms by (simp add: New_def fluent_New_def)

text \<open>
  Claim C5. With \<open>Enabled\<close> false, \<open>New\<close> returns the error
  "middleware disabled" and no logger, and leaves the world as it found it: in
  particular \<open>fluent.New\<close> is not called, so no connection is attempted.
\<close>

theorem New_disabled:
  assumes "\<not> Enabled config"
  shows "New env config w = (Inl (ErrorValue ''middleware disabled''), w) \<and>
         dialed (snd (New env config w)) = dialed w"
  using assms by (simp add: New_def)

theorem New_disabled_witness:
  "New collector_up \<lparr>Enabled = False, Host = ''127.0.0.1'', Port = 24224, Tag = ''app''\<rparr> world0 =
     (Inl (ErrorValue ''middleware disabled''), world0) \<and>
   dialed (snd (New collector_up
     \<lparr>Enabled = False, Host = ''127.0.0.1'', Port = 24224, Tag = ''app''\<rparr> world0)) = []"
  using New_disabled [of "\<lparr>Enabled = False, Host = ''127.0.0.1'', Port = 24224, Tag = ''app''\<rparr>"
      collector_up world0]
  by (simp add: world0_def)

subsection \<open>A send that fails\<close>

text \<open>
  Claim C6. Take either handler. If its call of \<open>Post\<close> returns an error, the
  handler still returns the downstream handler's own error, and the transmission
  error goes to \<open>tracerr.PrintSource\<close> once and nowhere else. The context that the
  handler hands back is the same under every collector, failing or not; when the
  downstream handler left a buffered body, it is the downstream handler's context
  itself.
\<close>

theorem Post_failure_not_propagated:
  assumes "H = Logger \<or> H = PanicLogger"
    and "Next c w = (err, c', w1)"
    and "posts (snd (snd (H env l Next c w))) = posts w1 @ [p]"
    and "post_err p = Some perr"
  shows "fst (H env l Next c w) = err \<and>
         fst (snd (H env l Next c w)) = fst (snd (H env' l Next c w)) \<and>
         (bodyStream (Response c') = None \<longrightarrow> fst (snd (H env l Next c w)) = c') \<and>
         printed (snd (snd (H env l Next c w))) = printed w1 @ [perr]"
  using assms(1)
proof
  assume L: "H = Logger"
  have "fst (H env l Next c w) = err"
    using L assms(2) by (simp add: handlers_return_downstream_error)
  moreover have "fst (snd (H env l Next c w)) = fst (snd (H env' l Next c w))"
    using L by (simp add: Logger_context)
  moreover have "bodyStream (Response c') = None \<longrightarrow> fst (snd (H env l Next c w)) = c'"
    using L assms(2) by (simp add: Logger_context_buffered)
  moreover have "printed (snd (snd (H env l Next c w))) = printed w1 @ [perr]"
    using L assms(2-4)
    by (auto simp add: Logger_def external_defs Let_def split: prod.splits option.splits)
  ultimately show ?thesis by simp
next
  assume P: "H = PanicLogger"
  have "fst (H env l Next c w) = err"
    using P assms(2) by (simp add: handlers_return_downstream_error)
  moreover have "fst (snd (H env l Next c w)) = fst (snd (H env' l Next c w))"
    using P by (simp add: PanicLogger_context)
  moreover have "fst (snd (H env l Next c w)) = c'"
    using P assms(2) by (simp add: PanicLogger_context)
  moreover have "printed (snd (snd (H env l Next c w))) = printed w1 @ [perr]"
    using P assms(2-4)
    by (auto simp add: PanicLogger_def external_defs Let_def
        split: prod.splits option.splits if_splits)
  ultimately show ?thesis by simp
qed

theorem Post_failure_not_propagated_witness:
  "fst (Logger collector_down app_logger orders (request ''POST'' ''/orders'') world0) =
     Some (ErrorValue ''db timeout'') \<and>
   fst (snd (Logger collector_down app_logger orders (request ''POST'' ''/orders'') world0)) =
     fst (snd (orders (request ''POST'' ''/orders'') world0)) \<and>
   fst (snd (PanicLogger collector_down app_logger orders (request ''POST'' ''/orders'') world0)) =
     fst (snd (orders (request ''POST'' ''/orders'') world0)) \<and>
   printed (snd (snd (Logger collector_down app_logger orders
     (request ''POST'' ''/orders'') world0))) = [ErrorValue ''connection refused''] \<and>
   fst (PanicLogger collector_down app_logger orders (request ''POST'' ''/orders'') world0) =
     Some (ErrorValue ''db timeout'') \<and>
   printed (snd (snd (PanicLogger collector_down app_logger orders
     (request ''POST'' ''/orders'') world0))) = [ErrorValue ''connection refused'']"
proof -
  let ?c = "request ''POST'' ''/orders''"
  let ?WL = "snd (snd (Logger collector_down app_logger orders ?c world0))"
  let ?WP = "snd (snd (PanicLogger collector_down app_logger orders ?c world0))"
  have l1: "posts ?WL = posts (elapse 3000000 world0) @ [last (posts ?WL)]"
    by (simp add: Logger_def external_defs Let_def orders_run world0_def collector_down_def
        collector_up_def)
  have l2: "post_err (last (posts ?WL)) = Some (ErrorValue ''connection refused'')"
    by (simp add: Logger_def external_defs Let_def orders_run world0_def collector_down_def
        collector_up_def)
  have p1: "posts ?WP = posts (elapse 3000000 world0) @ [last (posts ?WP)]"
    by (simp add: PanicLogger_def external_defs Let_def orders_run world0_def
        collector_down_def collector_up_def StatusInternalServerError_def)
  have p2: "post_err (last (posts ?WP)) = Some (ErrorValue ''connection refused'')"
    by (simp add: PanicLogger_def external_defs Let_def orders_run world0_def collector_down_def
        collector_up_def StatusInternalServerError_def)
  show ?thesis
    using Post_failure_not_propagated [where H = Logger, OF _ orders_run l1 l2]
      Post_failure_not_propagated [where H = PanicLogger, OF _ orders_run p1 p2]
    by (simp add: elapse_def world0_def orders_run)
qed

subsection \<open>What the failure record holds\<close>

text \<open>
  Claim C7. When the status is 500, the record that \<open>PanicLogger\<close> posts has the
  key \<open>stacktrace\<close> exactly when the downstream handler returned an error, and the
  key \<open>error\<close> under the same condition. The error is any \<open>go_error\<close>: one
  that a handler returned on purpose and one recovered from a panic are treated alike.
\<close>

theorem PanicLogger_stacktrace_iff_error:
  assumes "Next c w = (err, c', w1)"
    and "StatusCode (Response c') = StatusInternalServerError"
  shows "\<exists>data perr.
     posts (snd (snd (PanicLogger env l Next c w))) =
       posts w1 @ [\<lparr>post_tag = tag l @ ''.panic'', post_data = data, post_err = perr\<rparr>] \<and>
     (''stacktrace'' \<in> dom data) = (err \<noteq> None) \<and>
     (''error'' \<in> dom data) = (err \<noteq> None)"
proof (cases err)
  case None
  with assms show ?thesis
    by (auto simp add: PanicLogger_def external_defs Let_def split: prod.splits option.splits)
next
  case (Some e)
  with assms show ?thesis
    by (auto simp add: PanicLogger_def external_defs Let_def split: prod.splits option.splits)
qed

theorem PanicLogger_stacktrace_iff_error_witness:
  "(\<exists>data perr.
      posts (snd (snd (PanicLogger collector_up app_logger orders
        (request ''POST'' ''/orders'') world0))) =
        [\<lparr>post_tag = ''app.panic'', post_data = data, post_err = perr\<rparr>] \<and>
      ''stacktrace'' \<in> dom data \<and> ''error'' \<in> dom data) \<and>
   (\<exists>data perr.
      posts (snd (snd (PanicLogger collector_up app_logger crashed
        (request ''POST'' ''/orders'') world0))) =
        [\<lparr>post_tag = ''app.panic'', post_data = data, post_err = perr\<rparr>] \<and>
      ''stacktrace'' \<in> dom data \<and> ''error'' \<in> dom data) \<and>
   (\<exists>data perr.
      posts (snd (snd (PanicLogger collector_up app_logger silent500
        (request ''POST'' ''/orders'') world0))) =
        [\<lparr>post_tag = ''app.panic'', post_data = data, post_err = perr\<rparr>] \<and>
      ''stacktrace'' \<notin> dom data \<and> ''error'' \<notin> dom data)"
proof -
  have s: "StatusCode (Response
      (c\<lparr>Response := \<lparr>StatusCode = 500, body = b, bodyStream = None\<rparr>\<rparr>)) =
      StatusInternalServerError" for c :: fiber_Ctx and b
    by (simp add: StatusInternalServerError_def)
  have handled: "\<exists>data perr.
      posts (snd (snd (PanicLogger collector_up app_logger orders
        (request ''POST'' ''/orders'') world0))) =
        [\<lparr>post_tag = ''app.panic'', post_data = data, post_err = perr\<rparr>] \<and>
      ''stacktrace'' \<in> dom data \<and> ''error'' \<in> dom data"
    using PanicLogger_stacktrace_iff_error [where env = collector_up and l = app_logger
        and Next = orders and c = "request ''POST'' ''/orders''" and w = world0,
        OF orders_run s]
    by (simp add: elapse_def world0_def app_logger_def)
  have panicked: "\<exists>data perr.
      posts (snd (snd (PanicLogger collector_up app_logger crashed
        (request ''POST'' ''/orders'') world0))) =
        [\<lparr>post_tag = ''app.panic'', post_data = data, post_err = perr\<rparr>] \<and>
      ''stacktrace'' \<in> dom data \<and> ''error'' \<in> dom data"
    using PanicLogger_stacktrace_iff_error [where env = collector_up and l = app_logger
        and Next = crashed and c = "request ''POST'' ''/orders''" and w = world0,
        OF crashed_run s]
    by (simp add: elapse_def world0_def app_logger_def)
  have silent: "\<exists>data perr.
      posts (snd (snd (PanicLogger collector_up app_logger silent500
        (request ''POST'' ''/orders'') world0))) =
        [\<lparr>post_tag = ''app.panic'', post_data = data, post_err = perr\<rparr>] \<and>
      ''stacktrace'' \<notin> dom data \<and> ''error'' \<notin> dom data"
    using PanicLogger_stacktrace_iff_error [where env = collector_up and l = app_logger
        and Next = silent500 and c = "request ''POST'' ''/orders''" and w = world0,
        OF silent500_run s]
    by (simp add: elapse_def world0_def app_logger_def)
  from handled panicked silent show ?thesis by (intro conjI)
qed

text \<open>
  Claim C9. When the status is 500 and the downstream handler returned \<open>nil\<close>,
  \<open>PanicLogger\<close> still posts one record under the \<open>.panic\<close> tag, and its keys
  are exactly \<open>method\<close>, \<open>path\<close>, \<open>client_ip\<close> and \<open>user_agent\<close>:
  neither \<open>error\<close> nor \<open>stacktrace\<close> is there.
\<close>

theorem PanicLogger_nil_error_record:
  assumes "Next c w = (None, c', w1)"
    and "StatusCode (Response c') = StatusInternalServerError"
  shows "\<exists>data perr.
     posts (snd (snd (PanicLogger env l Next c w))) =
       posts w1 @ [\<lparr>post_tag = tag l @ ''.panic'', post_data = data, post_err = perr\<rparr>] \<and>
     dom data = {''method'', ''path'', ''client_ip'', ''user_agent''} \<and>
     data ''error'' = None \<and> data ''stacktrace'' = None"
proof -
  let ?data = "[''method'' \<mapsto> StringV (Method c'), ''path'' \<mapsto> StringV (Path c'),
                ''client_ip'' \<mapsto> StringV (IP c'),
                ''user_agent'' \<mapsto> StringV (Get c' ''User-Agent'')]"
  obtain r ns where sent: "send env (client l) (tag l @ ''.panic'') ?data w1 = (r, ns)"
    by (cases "send env (client l) (tag l @ ''.panic'') ?data w1") auto
  have "posts (snd (snd (PanicLogger env l Next c w))) =
      posts w1 @ [\<lparr>post_tag = tag l @ ''.panic'', post_data = ?data, post_err = r\<rparr>]"
    using assms sent
    by (cases r) (simp_all add: PanicLogger_def external_defs)
  moreover have "dom ?data = {''method'', ''path'', ''client_ip'', ''user_agent''}"
    by auto
  moreover have "?data ''error'' = None" "?data ''stacktrace'' = None"
    by simp_all
  ultimately show ?thesis by blast
qed

theorem PanicLogger_nil_error_record_witness:
  "\<exists>data perr.
     posts (snd (snd (PanicLogger collector_up app_logger silent500
       (request ''GET'' ''/report'') world0))) =
       [\<lparr>post_tag = ''app.panic'', post_data = data, post_err = perr\<rparr>] \<and>
     dom data = {''method'', ''path'', ''client_ip'', ''user_agent''} \<and>
     data ''error'' = None \<and> data ''stacktrace'' = None"
proof -
  have "StatusCode (Response (request ''GET'' ''/report''
      \<lparr>Response := \<lparr>StatusCode = 500, body = ''Internal Server Error'',
         bodyStream = None\<rparr>\<rparr>)) =
      StatusInternalServerError"
    by (simp add: StatusInternalServerError_def)
  from PanicLogger_nil_error_record [where env = collector_up and l = app_logger
      and Next = silent500 and c = "request ''GET'' ''/report''" and w = world0,
      OF silent500_run this]
  show ?thesis
    by (simp add: elapse_def world0_def app_logger_def)
qed

subsection \<open>Latency\<close>

text \<open>
  Claim C8. The \<open>latency_ms\<close> of the record that \<open>Logger\<close> posts is the time
  elapsed between the capture taken before the downstream handler is called and the
  one taken when it returns, in whole milliseconds. The clock that Go's
  \<open>time.Since\<close> reads does not run backwards; for a downstream call during which
  it has not, the value is not negative.
\<close>

theorem Logger_latency_ms:
  assumes "Next c w = (err, c', w1)"
    and "now w \<le> now w1"
  shows "\<exists>data perr.
     posts (snd (snd (Logger env l Next c w))) =
       posts w1 @ [\<lparr>post_tag = tag l, post_data = data, post_err = perr\<rparr>] \<and>
     data ''latency_ms'' = Some (Int64V (Milliseconds (now w1 - now w))) \<and>
     0 \<le> Milliseconds (now w1 - now w) \<and>
     Milliseconds (now w1 - now w) = (now w1 - now w) div 1000000"
proof -
  have elapsed: "0 \<le> now w1 - now w"
    using assms(2) by simp
  then have ms: "Milliseconds (now w1 - now w) = (now w1 - now w) div 1000000"
    by (rule Milliseconds_nonneg)
  with elapsed have nonneg: "0 \<le> Milliseconds (now w1 - now w)"
    by (simp add: pos_imp_zdiv_nonneg_iff)
  have "\<exists>data perr.
     posts (snd (snd (Logger env l Next c w))) =
       posts w1 @ [\<lparr>post_tag = tag l, post_data = data, post_err = perr\<rparr>] \<and>
     data ''latency_ms'' = Some (Int64V (Milliseconds (now w1 - now w)))"
    using assms(1)
    by (cases err)
      (auto simp add: Logger_def external_defs Let_def split: prod.splits option.splits)
  with ms nonneg show ?thesis by blast
qed

theorem Logger_latency_ms_witness:
  "(\<exists>data perr.
      posts (snd (snd (Logger collector_up app_logger health
        (request ''GET'' ''/health'') world0))) =
        [\<lparr>post_tag = ''app'', post_data = data, post_err = perr\<rparr>] \<and>
      data ''latency_ms'' = Some (Int64V 12)) \<and>
   (\<exists>data perr.
      posts (snd (snd (Logger collector_up app_logger (respond 200 ''ok'' None 12999999)
        (request ''GET'' ''/health'') world0))) =
        [\<lparr>post_tag = ''app'', post_data = data, post_err = perr\<rparr>] \<and>
      data ''latency_ms'' = Some (Int64V 12))"
proof -
  have ms: "Milliseconds 12000000 = 12" "Milliseconds 12999999 = 12"
    by (simp_all add: Milliseconds_nonneg)
  have forward: "now world0 \<le> now (elapse ns world0)" for ns
    by (simp add: elapse_def)
  have exact: "\<exists>data perr.
      posts (snd (snd (Logger collector_up app_logger health
        (request ''GET'' ''/health'') world0))) =
        [\<lparr>post_tag = ''app'', post_data = data, post_err = perr\<rparr>] \<and>
      data ''latency_ms'' = Some (Int64V 12)"
    using Logger_latency_ms [where env = collector_up and l = app_logger and Next = health
        and c = "request ''GET'' ''/health''" and w = world0, OF health_run forward]
    by (simp add: ms elapse_def world0_def app_logger_def)
  have truncated: "\<exists>data perr.
      posts (snd (snd (Logger collector_up app_logger (respond 200 ''ok'' None 12999999)
        (request ''GET'' ''/health'') world0))) =
        [\<lparr>post_tag = ''app'', post_data = data, post_err = perr\<rparr>] \<and>
      data ''latency_ms'' = Some (Int64V 12)"
    using Logger_latency_ms [where env = collector_up and l = app_logger
        and Next = "respond 200 ''ok'' None 12999999"
        and c = "request ''GET'' ''/health''" and w = world0, OF respond_run forward]
    by (simp add: ms elapse_def world0_def app_logger_def)
  from exact truncated show ?thesis ..
qed

text \<open>
  Claim C10. The elapsed time is taken from the world exactly as the downstream
  handler returned it, before the record is built and before it is sent: the
  \<open>latency_ms\<close> posted spans the downstream call only. The handler as a whole
  ends later, by the time \<open>tracerr.SprintSource\<close> takes to describe the error
  (when there is one) and the time \<open>Post\<close> blocks, and neither is part of
  \<open>latency_ms\<close>.
\<close>

theorem Logger_latency_window:
  assumes "Next c w = (err, c', w1)"
  shows "let w' = snd (snd (Logger env l Next c w));
             data = post_data (last (posts w'));
             build = (case err of None \<Rightarrow> 0 | Some e \<Rightarrow> snd (sprint env e));
             transmit = snd (send env (client l) (tag l) data (elapse build w1))
         in data ''latency_ms'' = Some (Int64V (Milliseconds (now w1 - now w))) \<and>
            now w' = now w1 + int build + int transmit"
proof (cases err)
  case None
  with assms show ?thesis
    by (auto simp add: Logger_def external_defs Let_def split: prod.splits option.splits)
next
  case (Some e)
  with assms show ?thesis
    by (auto simp add: Logger_def external_defs Let_def split: prod.splits option.splits)
qed

theorem Logger_latency_window_witness:
  "post_data (last (posts (snd (snd (Logger collector_up app_logger orders
      (request ''POST'' ''/orders'') world0))))) ''latency_ms'' = Some (Int64V 3) \<and>
   now (snd (snd (Logger collector_up app_logger orders
      (request ''POST'' ''/orders'') world0))) = 6000000 \<and>
   post_data (last (posts (snd (snd (Logger collector_down app_logger orders
      (request ''POST'' ''/orders'') world0))))) ''latency_ms'' = Some (Int64V 3) \<and>
   now (snd (snd (Logger collector_down app_logger orders
      (request ''POST'' ''/orders'') world0))) = 9000000"
proof -
  have ms: "Milliseconds 3000000 = 3"
    by (simp add: Milliseconds_nonneg)
  show ?thesis
    using Logger_latency_window [where env = collector_up and l = app_logger and Next = orders
        and c = "request ''POST'' ''/orders''" and w = world0, OF orders_run]
      Logger_latency_window [where env = collector_down and l = app_logger and Next = orders
        and c = "request ''POST'' ''/orders''" and w = world0, OF orders_run]
    by (simp add: ms Let_def elapse_def world0_def collector_up_def collector_down_def)
qed

end
